theory Spec2Isabelle
  imports Main
begin

text \<open>
  The event delivery and session coordination of the extension: \<open>src/src/api.ts\<close> with
  the storage helpers of \<open>src/src/lib.ts\<close>. Browser storage, the clock and the requests
  issued are an explicit state; an exception is a result. One call runs at a time: an
  \<open>await\<close> on a request takes the collector's reply to it and lets the clock advance.
\<close>

section \<open>Data model (src/src/api.ts)\<close>

text \<open>
  Errors a JavaScript call can throw in the modelled code: \<open>JSON.parse\<close> on malformed
  text, \<open>localStorage.setItem\<close> refused by the browser, and the two
  \<open>throw new Error(...)\<close> of \<open>newSession\<close>.
\<close>

datatype js_error = SyntaxError | QuotaExceededError | Error string

text \<open>\<open>Maybe\<close> of common/util: a success with its value, or a failure with a message and
  an optional machine-readable code.\<close>

datatype 'a maybe = Success 'a | Failure string "string option"

record session =
  uuid :: string

text \<open>
  The fields of \<open>Event\<close> that api.ts reads or writes. \<open>eventType\<close> is the field
  \<open>type\<close>, \<open>eventContext\<close> the field \<open>context\<close> (\<open>None\<close> is null/undefined, the
  only values \<open>??\<close> replaces); an absent \<open>url\<close> is the empty string (\<open>!event.url\<close>).
\<close>

record event =
  eventType :: string
  localUuid :: string
  sessionUuid :: string
  url :: string
  eventContext :: "string option"
  extensionVersion :: string
  tabActive :: "bool option"

text \<open>
  \<open>StoredEvent\<close>. The type parameter is the representation of \<open>lastAttempt\<close>: a
  \<open>Date\<close> in memory (milliseconds since the epoch, \<open>int\<close>), a string in the parsed JSON.
\<close>

record 'd stored_event =
  apiUrl :: string
  event :: event
  lastAttempt :: 'd
  persisted :: bool
  attempts :: nat
  participantCode :: string
  tryImmediately :: bool

type_synonym storage = "string \<Rightarrow> string option"

type_synonym headers = "(string \<times> string) list"

datatype request =
  CreateSession_POST string headers
  | Event_POST string event headers

text \<open>
  What the code takes from its platform and its libraries: \<open>JSON\<close>, \<open>Date\<close>, lz-string,
  whether the browser accepts a \<open>setItem\<close> (it throws a quota error otherwise),
  \<open>document.referrer\<close>, \<open>window.location.href\<close> and the version of package.json.
  \<open>JSON_parse\<close> covers \<open>JSON.parse(json) as StoredEvent[]\<close>: the cast is unchecked in the
  source, so well-formed text of another shape is outside the model.
\<close>

record platform =
  JSON_parse :: "string \<Rightarrow> js_error + string stored_event list"
  JSON_stringify :: "int stored_event list \<Rightarrow> string"
  Date_parse :: "string \<Rightarrow> int"
  compressToUTF16 :: "string \<Rightarrow> string"
  decompressFromUTF16 :: "string \<Rightarrow> string option"
  accepts :: "storage \<Rightarrow> string \<Rightarrow> string \<Rightarrow> bool"
  referrer :: string
  href :: string
  version :: string

text \<open>
  The collector, as the client sees it: the reply to the n-th request issued, and the
  time it takes to arrive.
\<close>

record collector =
  session_reply :: "nat \<Rightarrow> session maybe"
  event_reply :: "nat \<Rightarrow> bool maybe"
  latency :: "nat \<Rightarrow> nat"

text \<open>
  The state outside a coordinator: both browser stores, the module variable
  \<open>tabIsActive\<close>, the clock behind \<open>Date.now()\<close>, and the requests issued so far (a promise
  returned by \<open>post\<close> is the index of its request).
\<close>

record world =
  localStorage :: storage
  sessionStorage :: storage
  tabIsActive :: "bool option"
  now :: int
  sent :: "request list"

text \<open>
  The variables closed over by one \<open>createApi\<close> call. The last field is no variable of
  the source: it is the promise on which a call of \<open>newSession\<close> is suspended, so that
  the continuation of that call (lines 220 to 226) is part of the state while the
  request is in flight.
\<close>

record api_state =
  c_apiUrl :: string
  c_participantCode :: string
  c_sessionUuid :: string
  c_sessionPromise :: "nat option"
  c_newSessionAwaits :: "nat option"

section \<open>Exceptions and state\<close>

definition returnE :: "'a \<Rightarrow> 's \<Rightarrow> (js_error + 'a) \<times> 's" where
  "returnE x s = (Inr x, s)"

definition throwE :: "js_error \<Rightarrow> 's \<Rightarrow> (js_error + 'a) \<times> 's" where
  "throwE e s = (Inl e, s)"

definition bindE ::
  "('s \<Rightarrow> (js_error + 'a) \<times> 's) \<Rightarrow> ('a \<Rightarrow> 's \<Rightarrow> (js_error + 'b) \<times> 's) \<Rightarrow> 's \<Rightarrow> (js_error + 'b) \<times> 's" where
  "bindE m f s = (case m s of (Inl e, s1) \<Rightarrow> (Inl e, s1) | (Inr x, s1) \<Rightarrow> f x s1)"

definition catchE ::
  "('s \<Rightarrow> (js_error + 'a) \<times> 's) \<Rightarrow> (js_error \<Rightarrow> 's \<Rightarrow> (js_error + 'a) \<times> 's) \<Rightarrow> 's \<Rightarrow> (js_error + 'a) \<times> 's" where
  "catchE m h s = (case m s of (Inl e, s1) \<Rightarrow> h e s1 | (Inr x, s1) \<Rightarrow> (Inr x, s1))"

definition on_local ::
  "(storage \<Rightarrow> (js_error + 'a) \<times> storage) \<Rightarrow> world \<Rightarrow> (js_error + 'a) \<times> world" where
  "on_local m w = (case m (localStorage w) of (r, ls) \<Rightarrow> (r, w\<lparr>localStorage := ls\<rparr>))"

definition on_session ::
  "(storage \<Rightarrow> (js_error + 'a) \<times> storage) \<Rightarrow> world \<Rightarrow> (js_error + 'a) \<times> world" where
  "on_session m w = (case m (sessionStorage w) of (r, ss) \<Rightarrow> (r, w\<lparr>sessionStorage := ss\<rparr>))"

definition on_world ::
  "(world \<Rightarrow> (js_error + 'a) \<times> world) \<Rightarrow> api_state \<times> world \<Rightarrow> (js_error + 'a) \<times> api_state \<times> world" where
  "on_world m s = (case m (snd s) of (r, w) \<Rightarrow> (r, (fst s, w)))"

section \<open>Storage helpers (src/src/lib.ts)\<close>

definition namespace :: string where
  "namespace = ''ytdpnl-extension-''"

text \<open>JavaScript truthiness of a \<open>string | null\<close>.\<close>

definition truthy :: "string option \<Rightarrow> bool" where
  "truthy v = (case v of None \<Rightarrow> False | Some s \<Rightarrow> s \<noteq> [])"

definition setItem :: "platform \<Rightarrow> string \<Rightarrow> string \<Rightarrow> storage \<Rightarrow> (js_error + unit) \<times> storage" where
  "setItem P k v st =
     (if accepts P st k v then (Inr (), st(k \<mapsto> v)) else (Inl QuotaExceededError, st))"

definition removeItem :: "string \<Rightarrow> storage \<Rightarrow> (js_error + unit) \<times> storage" where
  "removeItem k st = (Inr (), st(k := None))"

text \<open>\<open>getFromLocalStorage\<close> and \<open>getFromSessionStorage\<close> have the same body, on their
  own store: the namespaced key first, then the legacy key, which is moved forward.\<close>

definition getFromStorage :: "platform \<Rightarrow> string \<Rightarrow> storage \<Rightarrow> (js_error + string option) \<times> storage" where
  "getFromStorage P key st =
     (let newFormat = st (namespace @ key) in
      if truthy newFormat then (Inr newFormat, st)
      else (case st key of
              None \<Rightarrow> (Inr None, st)
            | Some oldFormat \<Rightarrow>
                if oldFormat \<noteq> [] then
                  bindE (setItem P (namespace @ key) oldFormat) (\<lambda>_.
                  bindE (removeItem key) (\<lambda>_.
                  returnE (Some oldFormat))) st
                else (Inr None, st)))"

definition saveToStorage :: "platform \<Rightarrow> string \<Rightarrow> string \<Rightarrow> storage \<Rightarrow> (js_error + unit) \<times> storage" where
  "saveToStorage P key v =
     bindE (removeItem key) (\<lambda>_. setItem P (namespace @ key) v)"

definition getFromLocalStorage :: "platform \<Rightarrow> string \<Rightarrow> world \<Rightarrow> (js_error + string option) \<times> world" where
  "getFromLocalStorage P key = on_local (getFromStorage P key)"

definition getFromSessionStorage :: "platform \<Rightarrow> string \<Rightarrow> world \<Rightarrow> (js_error + string option) \<times> world" where
  "getFromSessionStorage P key = on_session (getFromStorage P key)"

definition saveToLocalStorage :: "platform \<Rightarrow> string \<Rightarrow> string \<Rightarrow> world \<Rightarrow> (js_error + unit) \<times> world" where
  "saveToLocalStorage P key v = on_local (saveToStorage P key v)"

definition saveToSessionStorage :: "platform \<Rightarrow> string \<Rightarrow> string \<Rightarrow> world \<Rightarrow> (js_error + unit) \<times> world" where
  "saveToSessionStorage P key v = on_session (saveToStorage P key v)"

section \<open>The Durable Queue Store\<close>

definition retryDelay :: int where
  "retryDelay = 60000"

definition eventsStorageKey :: string where
  "eventsStorageKey = ''events''"

text \<open>The map of \<open>loadStoredEvents\<close>: every field kept, \<open>lastAttempt\<close> made a \<open>Date\<close> again.\<close>

definition restoreDate :: "platform \<Rightarrow> string stored_event \<Rightarrow> int stored_event" where
  "restoreDate P e =
     \<lparr>apiUrl = apiUrl e, event = event e, lastAttempt = Date_parse P (lastAttempt e),
      persisted = persisted e, attempts = attempts e, participantCode = participantCode e,
      tryImmediately = tryImmediately e\<rparr>"

definition loadStoredEvents :: "platform \<Rightarrow> world \<Rightarrow> (js_error + int stored_event list) \<times> world" where
  "loadStoredEvents P =
     bindE (getFromLocalStorage P eventsStorageKey) (\<lambda>dataStr.
       case dataStr of
         None \<Rightarrow> returnE []
       | Some d \<Rightarrow>
           if d = [] then returnE []
           else
             bindE (getFromLocalStorage P ''lz-string'') (\<lambda>flag.
               let json = (if flag = Some ''true'' then decompressFromUTF16 P d else Some d) in
               case json of
                 None \<Rightarrow> returnE []
               | Some j \<Rightarrow>
                   if j = [] then returnE []
                   else (case JSON_parse P j of
                           Inl e \<Rightarrow> throwE e
                         | Inr parsed \<Rightarrow> returnE (map (restoreDate P) parsed))))"

definition saveStoredEvents :: "platform \<Rightarrow> int stored_event list \<Rightarrow> world \<Rightarrow> (js_error + unit) \<times> world" where
  "saveStoredEvents P events =
     catchE
       (bindE (saveToLocalStorage P ''lz-string'' ''true'') (\<lambda>_.
          let data = compressToUTF16 P (JSON_stringify P events) in
          saveToLocalStorage P eventsStorageKey data))
       (\<lambda>e. saveToLocalStorage P eventsStorageKey [])"

definition clearStoredEvent :: "platform \<Rightarrow> event \<Rightarrow> world \<Rightarrow> (js_error + unit) \<times> world" where
  "clearStoredEvent P ev =
     bindE (loadStoredEvents P) (\<lambda>events.
       let newEvents = filter (\<lambda>e. localUuid (event e) \<noteq> localUuid ev) events in
       saveStoredEvents P newEvents)"

section \<open>The coordinator returned by \<open>createApi\<close>\<close>

definition createApi :: "platform \<Rightarrow> string \<Rightarrow> string option \<Rightarrow> world \<Rightarrow> (js_error + api_state) \<times> world" where
  "createApi P apiUrl' overrideParticipantCode =
     bindE (getFromLocalStorage P ''participantCode'') (\<lambda>storedCode.
     bindE (getFromSessionStorage P ''sessionUuid'') (\<lambda>storedSession.
       returnE
         \<lparr>c_apiUrl = apiUrl',
          c_participantCode =
            (case storedCode of
               Some c \<Rightarrow> c
             | None \<Rightarrow> (case overrideParticipantCode of Some c \<Rightarrow> c | None \<Rightarrow> [])),
          c_sessionUuid = (case storedSession of Some u \<Rightarrow> u | None \<Rightarrow> []),
          c_sessionPromise = None,
          c_newSessionAwaits = None\<rparr>))"

definition headers :: "api_state \<Rightarrow> headers" where
  "headers api =
     [(''Content-Type'', ''application/json''), (''X-Participant-Code'', c_participantCode api)]"

definition getHeaders :: "api_state \<Rightarrow> headers" where
  "getHeaders api = headers api"

text \<open>
  \<open>post\<close> issues the request and returns its promise at once; \<open>await\<close> is the suspension
  until the reply to that request is there, during which the clock advances.
\<close>

definition post :: "request \<Rightarrow> world \<Rightarrow> nat \<times> world" where
  "post r w = (length (sent w), w\<lparr>sent := sent w @ [r]\<rparr>)"

definition await :: "collector \<Rightarrow> nat \<Rightarrow> world \<Rightarrow> world" where
  "await C p w = w\<lparr>now := now w + int (latency C p)\<rparr>"

definition storeEvent :: "platform \<Rightarrow> event \<Rightarrow> api_state \<times> world \<Rightarrow> (js_error + unit) \<times> api_state \<times> world" where
  "storeEvent P ev s =
     on_world
       (bindE (loadStoredEvents P) (\<lambda>storedEvents w.
          let toStore =
                \<lparr>apiUrl = c_apiUrl (fst s), event = ev, lastAttempt = now w, persisted = False,
                 attempts = 1, participantCode = c_participantCode (fst s),
                 tryImmediately = True\<rparr>
          in saveStoredEvents P (storedEvents @ [toStore]) w)) s"

text \<open>
  \<open>createSession\<close> has no \<open>await\<close>: its body runs to the end in one step. The callback it
  registers on the promise (\<open>then\<close> and \<open>catch\<close> alike) is \<open>sessionPromise_settled\<close>.
\<close>

definition createSession :: "api_state \<times> world \<Rightarrow> nat \<times> api_state \<times> world" where
  "createSession s =
     (case c_sessionPromise (fst s) of
        Some p \<Rightarrow> (p, s)
      | None \<Rightarrow>
          (case post (CreateSession_POST (c_apiUrl (fst s)) (headers (fst s))) (snd s) of
             (p, w1) \<Rightarrow> (p, ((fst s)\<lparr>c_sessionPromise := Some p\<rparr>, w1))))"

definition sessionPromise_settled :: "api_state \<Rightarrow> api_state" where
  "sessionPromise_settled api = api\<lparr>c_sessionPromise := None\<rparr>"

text \<open>
  \<open>newSession\<close> in two parts: \<open>newSession_start\<close> is the body up to its \<open>await\<close> (lines 214
  to 218), \<open>newSession_resume\<close> what follows the reply (lines 220 to 226). Between the
  two the promise settles: its callback runs first.
\<close>

definition newSession_start :: "api_state \<times> world \<Rightarrow> (js_error + nat) \<times> api_state \<times> world" where
  "newSession_start s =
     (if c_participantCode (fst s) = [] then throwE (Error ''Missing participant code!'') s
      else
        (case createSession s of
           (p, (api1, w1)) \<Rightarrow> returnE p (api1\<lparr>c_newSessionAwaits := Some p\<rparr>, w1)))"

definition newSession_resume ::
  "platform \<Rightarrow> session maybe \<Rightarrow> api_state \<times> world \<Rightarrow> (js_error + string) \<times> api_state \<times> world" where
  "newSession_resume P res s =
     (case res of
        Success v \<Rightarrow>
          bindE (on_world (saveToSessionStorage P ''sessionUuid'' (uuid v)))
            (\<lambda>_. returnE (uuid v))
            ((fst s)\<lparr>c_sessionUuid := uuid v\<rparr>, snd s)
      | Failure message code \<Rightarrow>
          throwE (Error (''Failed to create new session: '' @ message)) s)"

definition newSession :: "platform \<Rightarrow> collector \<Rightarrow> api_state \<times> world \<Rightarrow> (js_error + string) \<times> api_state \<times> world" where
  "newSession P C =
     bindE newSession_start (\<lambda>p s.
       newSession_resume P (session_reply C p)
         ((sessionPromise_settled (fst s))\<lparr>c_newSessionAwaits := None\<rparr>, await C p (snd s)))"

definition getSession :: "api_state \<Rightarrow> string option" where
  "getSession api = (if c_sessionUuid api = [] then None else Some (c_sessionUuid api))"

text \<open>
  When \<open>ensureSession\<close> finds a creation request in flight it waits for it and returns.
  If a call of \<open>newSession\<close> issued that request, that call is suspended on the same
  promise, and its continuation runs once the reply is there, before this call resumes:
  a success is cached and saved, a failure is thrown to the caller of \<open>newSession\<close>, not
  to this one.
\<close>

definition ensureSession :: "platform \<Rightarrow> collector \<Rightarrow> api_state \<times> world \<Rightarrow> (js_error + unit) \<times> api_state \<times> world" where
  "ensureSession P C s =
     (if c_sessionUuid (fst s) \<noteq> [] then returnE () s
      else
        (case c_sessionPromise (fst s) of
           Some p \<Rightarrow>
             (let s1 = (sessionPromise_settled (fst s), await C p (snd s)) in
              if c_newSessionAwaits (fst s) = Some p then
                (case newSession_resume P (session_reply C p)
                        ((fst s1)\<lparr>c_newSessionAwaits := None\<rparr>, snd s1) of
                   (r, s2) \<Rightarrow> returnE () s2)
              else returnE () s1)
         | None \<Rightarrow> bindE (newSession P C) (\<lambda>_. returnE ()) s))"

text \<open>
  \<open>postEvent\<close> in two parts: \<open>postEvent_send\<close> is the body up to the moment the POST is
  issued (lines 249 to 277), \<open>postEvent_receive\<close> what follows the reply (lines 279 to
  289). \<open>enrich\<close> is the copy of the input event made first (lines 256 to 262),
  \<open>assignSession\<close> the step that gives the event its session identifier (lines 264 to
  267).
\<close>

datatype submission = NotSent | Sent event nat

definition enrich :: "platform \<Rightarrow> world \<Rightarrow> event \<Rightarrow> event" where
  "enrich P w inputEvent =
     inputEvent
       \<lparr>eventContext :=
          Some (case eventContext inputEvent of None \<Rightarrow> referrer P | Some c \<Rightarrow> c),
        extensionVersion := version P,
        tabActive := tabIsActive w\<rparr>"

definition assignSession ::
  "platform \<Rightarrow> collector \<Rightarrow> event \<Rightarrow> api_state \<times> world \<Rightarrow> (js_error + event) \<times> api_state \<times> world" where
  "assignSession P C ev =
     (if sessionUuid ev = [] then
        bindE (ensureSession P C) (\<lambda>_ s1. returnE (ev\<lparr>sessionUuid := c_sessionUuid (fst s1)\<rparr>) s1)
      else returnE ev)"

definition postEvent_send ::
  "platform \<Rightarrow> collector \<Rightarrow> event \<Rightarrow> bool \<Rightarrow> api_state \<times> world \<Rightarrow> (js_error + submission) \<times> api_state \<times> world" where
  "postEvent_send P C inputEvent storeForRetry s =
     (let h = headers (fst s) in
      if \<not> truthy (map_of h ''X-Participant-Code'') then returnE NotSent s
      else
        (let ev = enrich P (snd s) inputEvent in
         bindE (assignSession P C ev) (\<lambda>ev1.
           bindE (if storeForRetry then storeEvent P ev1 else returnE ()) (\<lambda>_ s2.
             let ev2 = (if url ev1 = [] then ev1\<lparr>url := href P\<rparr> else ev1) in
             case post (Event_POST (c_apiUrl (fst s2)) ev2 h) (snd s2) of
               (p, w3) \<Rightarrow> returnE (Sent ev2 p) (fst s2, w3))) s))"

definition postEvent_receive ::
  "platform \<Rightarrow> event \<Rightarrow> bool maybe \<Rightarrow> api_state \<times> world \<Rightarrow> (js_error + bool) \<times> api_state \<times> world" where
  "postEvent_receive P ev res =
     (case res of
        Success v \<Rightarrow> bindE (on_world (clearStoredEvent P ev)) (\<lambda>_. returnE True)
      | Failure message code \<Rightarrow>
          if code = Some ''EVENT_ALREADY_EXISTS_OK'' then
            bindE (on_world (clearStoredEvent P ev)) (\<lambda>_. returnE True)
          else returnE False)"

definition postEvent ::
  "platform \<Rightarrow> collector \<Rightarrow> event \<Rightarrow> bool \<Rightarrow> api_state \<times> world \<Rightarrow> (js_error + bool) \<times> api_state \<times> world" where
  "postEvent P C inputEvent storeForRetry =
     bindE (postEvent_send P C inputEvent storeForRetry) (\<lambda>sub.
       case sub of
         NotSent \<Rightarrow> returnE False
       | Sent ev p \<Rightarrow> (\<lambda>s. postEvent_receive P ev (event_reply C p) (fst s, await C p (snd s))))"

section \<open>The Retry Scheduler\<close>

text \<open>\<open>sweep_entry\<close> is the body of the \<open>for\<close> loop of \<open>retryToPostStoredEvents\<close>, returning
  the entry as the loop leaves it in the array; \<open>sweep_loop\<close> is the loop.\<close>

definition sweep_entry :: "platform \<Rightarrow> collector \<Rightarrow> int stored_event \<Rightarrow> world \<Rightarrow> (js_error + int stored_event) \<times> world" where
  "sweep_entry P C storedEvent w =
     (let latestAttempt = lastAttempt storedEvent;
          timeUntilNextAttempt = latestAttempt + retryDelay - now w in
      if timeUntilNextAttempt > 0 \<and> \<not> tryImmediately storedEvent then returnE storedEvent w
      else
        (let se1 = storedEvent\<lparr>attempts := attempts storedEvent + 1, tryImmediately := False\<rparr> in
         bindE (createApi P (apiUrl se1) (Some (participantCode se1))) (\<lambda>api w1.
           if \<not> truthy (map_of (getHeaders api) ''X-Participant-Code'') then
             returnE (se1\<lparr>persisted := True\<rparr>) w1
           else
             (case postEvent P C (event se1) False (api, w1) of
                (Inl e, s2) \<Rightarrow> (Inl e, snd s2)
              | (Inr result, s2) \<Rightarrow>
                  if result then returnE (se1\<lparr>persisted := True\<rparr>) (snd s2)
                  else returnE (se1\<lparr>lastAttempt := now (snd s2)\<rparr>) (snd s2))) w))"

fun sweep_loop :: "platform \<Rightarrow> collector \<Rightarrow> int stored_event list \<Rightarrow> world \<Rightarrow> (js_error + int stored_event list) \<times> world" where
  "sweep_loop P C [] w = returnE [] w"
| "sweep_loop P C (storedEvent # rest) w =
     bindE (sweep_entry P C storedEvent) (\<lambda>swept.
       bindE (sweep_loop P C rest) (\<lambda>rest'. returnE (swept # rest'))) w"

definition retryToPostStoredEvents :: "platform \<Rightarrow> collector \<Rightarrow> world \<Rightarrow> (js_error + unit) \<times> world" where
  "retryToPostStoredEvents P C =
     bindE (loadStoredEvents P) (\<lambda>storedEvents.
       bindE (sweep_loop P C storedEvents) (\<lambda>swept.
         let remainingEvents = filter (\<lambda>e. \<not> persisted e) swept in
         saveStoredEvents P remainingEvents))"


section \<open>Concurrent callers of \<open>createSession\<close>\<close>

text \<open>Calls of \<open>createSession\<close> one after the other, with nothing settling in between:
  the promises the callers get, in order.\<close>

fun createSession_calls :: "nat \<Rightarrow> api_state \<times> world \<Rightarrow> nat list \<times> api_state \<times> world" where
  "createSession_calls 0 s = ([], s)"
| "createSession_calls (Suc n) s =
     (case createSession s of
        (p, s1) \<Rightarrow> (case createSession_calls n s1 of (ps, s2) \<Rightarrow> (p # ps, s2)))"

section \<open>What the store holds\<close>

text \<open>
  The text \<open>saveStoredEvents\<close> writes for a queue, and what it means for the store to
  hold a queue: its \<open>events\<close> entry is that text, flagged as compressed, or the queue is
  empty and the entry is the empty placeholder. \<open>roundtrips\<close> says that the libraries
  read that text back as the same queue. \<open>writes_accepted\<close> says that a store in state
  \<open>ls\<close> accepts the two writes \<open>saveStoredEvents\<close> makes for a queue: the flag, then the
  text.
\<close>

definition queue_blob :: "platform \<Rightarrow> int stored_event list \<Rightarrow> string" where
  "queue_blob P evs = compressToUTF16 P (JSON_stringify P evs)"

definition holds_queue :: "platform \<Rightarrow> storage \<Rightarrow> int stored_event list \<Rightarrow> bool" where
  "holds_queue P ls evs \<longleftrightarrow>
     (ls (namespace @ ''events'') = Some (queue_blob P evs)
        \<and> ls (namespace @ ''lz-string'') = Some ''true'')
     \<or> (evs = [] \<and> ls (namespace @ ''events'') = Some [] \<and> ls ''events'' = None)"

definition roundtrips :: "platform \<Rightarrow> int stored_event list \<Rightarrow> bool" where
  "roundtrips P evs \<longleftrightarrow>
     queue_blob P evs \<noteq> [] \<and> JSON_stringify P evs \<noteq> []
     \<and> decompressFromUTF16 P (queue_blob P evs) = Some (JSON_stringify P evs)
     \<and> (case JSON_parse P (JSON_stringify P evs) of
          Inl e \<Rightarrow> False
        | Inr parsed \<Rightarrow> map (restoreDate P) parsed = evs)"

definition writes_accepted :: "platform \<Rightarrow> int stored_event list \<Rightarrow> storage \<Rightarrow> bool" where
  "writes_accepted P evs ls \<longleftrightarrow>
     accepts P (ls(''lz-string'' := None)) (namespace @ ''lz-string'') ''true''
     \<and> accepts P
          (ls(''lz-string'' := None, namespace @ ''lz-string'' \<mapsto> ''true'', ''events'' := None))
          (namespace @ ''events'') (queue_blob P evs)"

text \<open>The replies \<open>postEvent\<close> takes as delivered: a success, or the failure code
  \<open>EVENT_ALREADY_EXISTS_OK\<close>.\<close>

definition acknowledged :: "bool maybe \<Rightarrow> bool" where
  "acknowledged res =
     (case res of Success v \<Rightarrow> True | Failure message code \<Rightarrow> code = Some ''EVENT_ALREADY_EXISTS_OK'')"

text \<open>
  For a call \<open>postEvent(e, true)\<close> from state \<open>s\<close>: the state in which it calls
  \<open>storeEvent\<close>, the copy of the event it stores (the enriched event, with the cached
  session identifier when the event had none), and the envelope the delivery pipeline is
  to write for it.
\<close>

definition storing_state :: "platform \<Rightarrow> collector \<Rightarrow> event \<Rightarrow> api_state \<times> world \<Rightarrow> api_state \<times> world" where
  "storing_state P C e s = snd (assignSession P C (enrich P (snd s) e) s)"

definition stored_copy :: "platform \<Rightarrow> collector \<Rightarrow> event \<Rightarrow> api_state \<times> world \<Rightarrow> event" where
  "stored_copy P C e s =
     (enrich P (snd s) e)
       \<lparr>sessionUuid :=
          (if sessionUuid e = [] then c_sessionUuid (fst (storing_state P C e s)) else sessionUuid e)\<rparr>"

definition envelope :: "platform \<Rightarrow> collector \<Rightarrow> event \<Rightarrow> api_state \<times> world \<Rightarrow> int stored_event" where
  "envelope P C e s =
     \<lparr>apiUrl = c_apiUrl (fst s), event = stored_copy P C e s,
      lastAttempt = now (snd (storing_state P C e s)), persisted = False, attempts = 1,
      participantCode = c_participantCode (fst s), tryImmediately = True\<rparr>"

section \<open>A concrete platform\<close>

text \<open>
  The theorems below hold for every platform and every collector. To run the definitions
  on concrete inputs a platform is needed: this one writes a queue as \<open>[\<close>, thirteen
  fields per entry, each ended by \<open>;\<close>, and \<open>]\<close>, with numbers in unary, and reads exactly
  that text back; any other text is a syntax error, as it is for \<open>JSON.parse\<close> on the
  texts used below (\<open>{\<close>). Its compression puts one character in front.
\<close>

definition show_bool :: "bool \<Rightarrow> string" where
  "show_bool b = (if b then ''t'' else ''f'')"

definition show_nat :: "nat \<Rightarrow> string" where
  "show_nat n = replicate n (CHR ''1'')"

definition show_stored :: "int stored_event \<Rightarrow> string" where
  "show_stored e =
     concat (map (\<lambda>f. f @ '';'')
       [apiUrl e, eventType (event e), localUuid (event e), sessionUuid (event e),
        url (event e),
        (case eventContext (event e) of None \<Rightarrow> ''-'' | Some c \<Rightarrow> CHR ''+'' # c),
        extensionVersion (event e),
        (case tabActive (event e) of None \<Rightarrow> ''-'' | Some b \<Rightarrow> show_bool b),
        show_nat (nat (lastAttempt e)), show_bool (persisted e), show_nat (attempts e),
        participantCode e, show_bool (tryImmediately e)])"

definition demo_stringify :: "int stored_event list \<Rightarrow> string" where
  "demo_stringify es = ''['' @ concat (map show_stored es) @ '']''"

fun read_field :: "string \<Rightarrow> (string \<times> string) option" where
  "read_field [] = None"
| "read_field (c # cs) =
     (if c = CHR '';'' then Some ([], cs)
      else (case read_field cs of None \<Rightarrow> None | Some (f, r) \<Rightarrow> Some (c # f, r)))"

fun read_fields :: "nat \<Rightarrow> string \<Rightarrow> (string list \<times> string) option" where
  "read_fields 0 s = Some ([], s)"
| "read_fields (Suc n) s =
     (case read_field s of
        None \<Rightarrow> None
      | Some (f, r) \<Rightarrow>
          (case read_fields n r of None \<Rightarrow> None | Some (fs, r') \<Rightarrow> Some (f # fs, r')))"

definition read_bool :: "string \<Rightarrow> bool option" where
  "read_bool s = (if s = ''t'' then Some True else if s = ''f'' then Some False else None)"

definition read_nat :: "string \<Rightarrow> nat option" where
  "read_nat s = (if list_all (\<lambda>c. c = CHR ''1'') s then Some (length s) else None)"

fun read_stored :: "string list \<Rightarrow> string stored_event option" where
  "read_stored [a, ty, lu, su, u, cx, ve, ta, la, pe, at, pc, ti] =
     (case (read_bool pe, read_nat at, read_bool ti) of
        (Some pe', Some at', Some ti') \<Rightarrow>
          (if cx = [] \<or> (ta \<noteq> ''-'' \<and> read_bool ta = None) then None
           else Some
             \<lparr>apiUrl = a,
              event =
                \<lparr>eventType = ty, localUuid = lu, sessionUuid = su, url = u,
                 eventContext = (if cx = ''-'' then None else Some (tl cx)),
                 extensionVersion = ve, tabActive = read_bool ta\<rparr>,
              lastAttempt = la, persisted = pe', attempts = at', participantCode = pc,
              tryImmediately = ti'\<rparr>)
      | _ \<Rightarrow> None)"
| "read_stored fs = None"

fun read_entries :: "nat \<Rightarrow> string \<Rightarrow> string stored_event list option" where
  "read_entries 0 s = None"
| "read_entries (Suc fuel) s =
     (if s = '']'' then Some []
      else (case read_fields 13 s of
              None \<Rightarrow> None
            | Some (fs, r) \<Rightarrow>
                (case read_stored fs of
                   None \<Rightarrow> None
                 | Some e \<Rightarrow> map_option ((#) e) (read_entries fuel r))))"

definition demo_parse :: "string \<Rightarrow> js_error + string stored_event list" where
  "demo_parse s =
     (case s of
        [] \<Rightarrow> Inl SyntaxError
      | c # cs \<Rightarrow>
          if c = CHR ''['' then
            (case read_entries (Suc (length cs)) cs of None \<Rightarrow> Inl SyntaxError | Some es \<Rightarrow> Inr es)
          else Inl SyntaxError)"

definition demo_platform :: platform where
  "demo_platform =
     \<lparr>JSON_parse = demo_parse,
      JSON_stringify = demo_stringify,
      Date_parse = (\<lambda>s. int (length s)),
      compressToUTF16 = (\<lambda>s. CHR ''z'' # s),
      decompressFromUTF16 = (\<lambda>s. case s of [] \<Rightarrow> None | c # cs \<Rightarrow> if c = CHR ''z'' then Some cs else None),
      accepts = (\<lambda>st k v. True),
      referrer = ''https://www.youtube.com/'',
      href = ''https://www.youtube.com/watch?v=1'',
      version = ''1.0.0''\<rparr>"

text \<open>The same platform on a full store: a write is refused when it would make the value
  under its key longer.\<close>

definition full_platform :: platform where
  "full_platform =
     demo_platform
       \<lparr>accepts := (\<lambda>st k v. length v \<le> (case st k of None \<Rightarrow> 0 | Some old \<Rightarrow> length old))\<rparr>"

text \<open>The same platform on a store with a quota: a value longer than 1000 characters is
  refused.\<close>

definition quota_platform :: platform where
  "quota_platform = demo_platform\<lparr>accepts := (\<lambda>st k v. length v \<le> 1000)\<rparr>"

definition demo_event :: event where
  "demo_event =
     \<lparr>eventType = ''PAGE_VIEW'', localUuid = ''e1'', sessionUuid = ''s1'', url = [],
      eventContext = None, extensionVersion = [], tabActive = None\<rparr>"

definition demo_world :: world where
  "demo_world =
     \<lparr>localStorage = Map.empty, sessionStorage = Map.empty, tabIsActive = Some True,
      now = 5, sent = []\<rparr>"

definition demo_api :: api_state where
  "demo_api =
     \<lparr>c_apiUrl = ''https://collector'', c_participantCode = ''P1'', c_sessionUuid = ''s1'',
      c_sessionPromise = None, c_newSessionAwaits = None\<rparr>"

text \<open>A collector that accepts every event and every session request, and one that is
  unreachable.\<close>

definition up_collector :: collector where
  "up_collector =
     \<lparr>session_reply = (\<lambda>n. Success \<lparr>uuid = ''s2''\<rparr>), event_reply = (\<lambda>n. Success True),
      latency = (\<lambda>n. 1)\<rparr>"

definition down_collector :: collector where
  "down_collector =
     \<lparr>session_reply = (\<lambda>n. Failure ''offline'' None), event_reply = (\<lambda>n. Failure ''offline'' None),
      latency = (\<lambda>n. 1)\<rparr>"

definition demo_entry :: "int stored_event" where
  "demo_entry =
     \<lparr>apiUrl = ''https://collector'', event = demo_event, lastAttempt = 0, persisted = False,
      attempts = 1, participantCode = ''P1'', tryImmediately = False\<rparr>"

definition demo_envelope :: "int stored_event" where
  "demo_envelope =
     \<lparr>apiUrl = ''https://collector'', event = enrich demo_platform demo_world demo_event,
      lastAttempt = 5, persisted = False, attempts = 1, participantCode = ''P1'',
      tryImmediately = True\<rparr>"

text \<open>A world whose queue holds an entry that is due and one that is not.\<close>

definition queued_world :: world where
  "queued_world =
     snd (saveStoredEvents demo_platform
            [demo_entry\<lparr>tryImmediately := True\<rparr>,
             demo_entry\<lparr>event := demo_event\<lparr>localUuid := ''e2''\<rparr>\<rparr>]
            demo_world)"

text \<open>A full store that holds a saved empty queue.\<close>

definition full_world :: world where
  "full_world =
     demo_world
       \<lparr>localStorage :=
          [namespace @ ''lz-string'' \<mapsto> ''true'', namespace @ ''events'' \<mapsto> ''z[]'']\<rparr>"

text \<open>A world where the participant code is now \<open>P2\<close> and the queue holds an entry
  recorded under \<open>P1\<close>.\<close>

definition relogged_world :: world where
  "relogged_world =
     snd (saveStoredEvents demo_platform [demo_entry\<lparr>tryImmediately := True\<rparr>]
            (demo_world\<lparr>localStorage := [namespace @ ''participantCode'' \<mapsto> ''P2'']\<rparr>))"

text \<open>
  A coordinator with no session yet on which \<open>newSession\<close> has been called and waits for
  its creation request (number 0), an event without a session identifier, and a
  collector that fails that request and every event, and creates sessions afterwards.
\<close>

definition waiting_api :: api_state where
  "waiting_api = fst (snd (newSession_start (demo_api\<lparr>c_sessionUuid := []\<rparr>, demo_world)))"

definition waiting_world :: world where
  "waiting_world = snd (snd (newSession_start (demo_api\<lparr>c_sessionUuid := []\<rparr>, demo_world)))"

definition fresh_event :: event where
  "fresh_event = demo_event\<lparr>sessionUuid := []\<rparr>"

definition recovering_collector :: collector where
  "recovering_collector =
     \<lparr>session_reply = (\<lambda>n. if n = 0 then Failure ''offline'' None else Success \<lparr>uuid = ''s2''\<rparr>),
      event_reply = (\<lambda>n. Failure ''offline'' None),
      latency = (\<lambda>n. 1)\<rparr>"


definition malformed_world :: world where
  "malformed_world = demo_world\<lparr>localStorage := [namespace @ ''events'' \<mapsto> ''{'']\<rparr>"

text \<open>What a request says about its sender: the session identifier in the body of an
  event, and the participant code in the headers.\<close>

fun request_session :: "request \<Rightarrow> string option" where
  "request_session (CreateSession_POST u h) = None"
| "request_session (Event_POST u ev h) = Some (sessionUuid ev)"

fun request_code :: "request \<Rightarrow> string option" where
  "request_code (CreateSession_POST u h) = map_of h ''X-Participant-Code''"
| "request_code (Event_POST u ev h) = map_of h ''X-Participant-Code''"

section \<open>Theorems\<close>

subsection \<open>The session coordinator\<close>

lemma createSession_in_flight:
  "c_sessionPromise (fst s) = Some p \<Longrightarrow> createSession s = (p, s)"
  by (simp add: createSession_def)

lemma createSession_calls_in_flight:
  "c_sessionPromise (fst s) = Some p \<Longrightarrow> createSession_calls n s = (replicate n p, s)"
  by (induction n) (simp_all add: createSession_in_flight)

lemma createSession_idle:
  "c_sessionPromise (fst s) = None \<Longrightarrow>
   createSession s =
     (length (sent (snd s)),
      (fst s)\<lparr>c_sessionPromise := Some (length (sent (snd s)))\<rparr>,
      (snd s)\<lparr>sent := sent (snd s) @ [CreateSession_POST (c_apiUrl (fst s)) (headers (fst s))]\<rparr>)"
  by (simp add: createSession_def post_def)

text \<open>
  C5. \<open>createSession\<close> is single-flight. From a coordinator with no request in flight,
  any number \<open>n + 1\<close> of calls made before the request settles issue exactly one
  request and all return the same promise, hence the same outcome. The callback run when
  the promise settles (the same for success and failure) clears the handle, and a call
  made after that issues a fresh request.
\<close>

theorem createSession_single_flight:
  assumes "c_sessionPromise (fst s) = None"
  shows "fst (createSession_calls (Suc n) s) = replicate (Suc n) (length (sent (snd s)))
    \<and> sent (snd (snd (createSession_calls (Suc n) s))) =
        sent (snd s) @ [CreateSession_POST (c_apiUrl (fst s)) (headers (fst s))]
    \<and> c_sessionPromise (fst (snd (createSession_calls (Suc n) s))) = Some (length (sent (snd s)))
    \<and> c_sessionPromise (sessionPromise_settled (fst (snd (createSession_calls (Suc n) s)))) = None
    \<and> sent (snd (snd (createSession (sessionPromise_settled (fst (snd (createSession_calls (Suc n) s))), w)))) =
        sent w @ [CreateSession_POST (c_apiUrl (fst s)) (headers (fst s))]"
  using assms
  by (simp add: createSession_idle createSession_calls_in_flight sessionPromise_settled_def headers_def)

theorem createSession_single_flight_witness:
  "fst (createSession_calls 3 (demo_api, demo_world)) = [0, 0, 0]
   \<and> length (sent (snd (snd (createSession_calls 3 (demo_api, demo_world))))) = 1
   \<and> c_sessionPromise (fst (snd (createSession_calls 3 (demo_api, demo_world)))) = Some 0"
proof -
  have idle: "c_sessionPromise (fst (demo_api, demo_world)) = None"
    by (simp add: demo_api_def)
  have three: "(3::nat) = Suc 2" by simp
  show ?thesis
    using createSession_single_flight [OF idle, of 2 demo_world]
    unfolding three by (simp add: demo_world_def numeral_2_eq_2)
qed

text \<open>
  C9. \<open>getSession\<close> returns undefined exactly when the cached session identifier is the
  empty string, returns the cached identifier otherwise, and never returns the empty
  string.
\<close>

theorem getSession_undefined_iff_empty:
  "(getSession api = None \<longleftrightarrow> c_sessionUuid api = [])
   \<and> (c_sessionUuid api \<noteq> [] \<longrightarrow> getSession api = Some (c_sessionUuid api))
   \<and> getSession api \<noteq> Some []"
  by (simp add: getSession_def)

theorem getSession_witness:
  "c_sessionUuid demo_api \<noteq> [] \<and> getSession demo_api = Some ''s1''
   \<and> getSession (demo_api\<lparr>c_sessionUuid := []\<rparr>) = None"
  using getSession_undefined_iff_empty [of demo_api]
    getSession_undefined_iff_empty [of "demo_api\<lparr>c_sessionUuid := []\<rparr>"]
  by (simp add: demo_api_def)

text \<open>
  C10, as stated, fails: with an empty participant code and a creation request already
  in flight, \<open>createSession\<close> returns the promise in flight and issues no request.
\<close>

theorem createSession_in_flight_sends_nothing:
  "c_participantCode (demo_api\<lparr>c_participantCode := [], c_sessionPromise := Some 0\<rparr>) = []
   \<and> sent (snd (snd (createSession (demo_api\<lparr>c_participantCode := [], c_sessionPromise := Some 0\<rparr>, demo_world)))) = []"
  by (simp add: createSession_def demo_world_def)

text \<open>
  C10, amended. \<open>createSession\<close> checks no participant identity: with an empty participant
  code and no creation request in flight, it issues a request whose X-Participant-Code
  header is the empty string. \<open>newSession\<close> is where the missing identity is raised,
  before \<open>createSession\<close> is called: nothing is sent and no state changes.
\<close>

theorem createSession_no_identity_check:
  assumes "c_participantCode (fst s) = []" and "c_sessionPromise (fst s) = None"
  shows "sent (snd (snd (createSession s))) =
           sent (snd s) @ [CreateSession_POST (c_apiUrl (fst s))
             [(''Content-Type'', ''application/json''), (''X-Participant-Code'', [])]]
    \<and> newSession P C s = (Inl (Error ''Missing participant code!''), s)"
  using assms
  by (simp add: createSession_idle headers_def newSession_def newSession_start_def bindE_def throwE_def)

theorem createSession_no_identity_check_witness:
  "sent (snd (snd (createSession (demo_api\<lparr>c_participantCode := []\<rparr>, demo_world)))) =
     [CreateSession_POST ''https://collector''
        [(''Content-Type'', ''application/json''), (''X-Participant-Code'', [])]]
   \<and> fst (newSession demo_platform up_collector (demo_api\<lparr>c_participantCode := []\<rparr>, demo_world)) =
       Inl (Error ''Missing participant code!'')"
proof -
  have a: "c_participantCode (fst (demo_api\<lparr>c_participantCode := []\<rparr>, demo_world)) = []"
    by simp
  have b: "c_sessionPromise (fst (demo_api\<lparr>c_participantCode := []\<rparr>, demo_world)) = None"
    by (simp add: demo_api_def)
  show ?thesis
    using createSession_no_identity_check [OF a b, of demo_platform up_collector]
    by (simp add: demo_api_def demo_world_def)
qed


subsection \<open>The retry sweep, entry by entry\<close>



subsection \<open>Reading the queue\<close>

lemma getFromStorage_present:
  "st (namespace @ key) = Some v \<Longrightarrow> v \<noteq> [] \<Longrightarrow> getFromStorage P key st = (Inr (Some v), st)"
  by (simp add: getFromStorage_def truthy_def)

lemma getFromStorage_absent:
  "\<not> truthy (st (namespace @ key)) \<Longrightarrow> st key = None \<Longrightarrow> getFromStorage P key st = (Inr None, st)"
  by (simp add: getFromStorage_def)

lemma world_same_local [simp]: "w\<lparr>localStorage := localStorage w\<rparr> = w"
  by simp

text \<open>
  C3 says that \<open>load()\<close> returns the empty sequence on a malformed blob. The code does
  not: a non-empty blob that is not flagged as compressed goes to \<open>JSON.parse\<close>, and the
  error it raises propagates to the caller of \<open>loadStoredEvents\<close>.
\<close>

theorem loadStoredEvents_throws_on_malformed:
  assumes "localStorage w (namespace @ ''events'') = Some d" and "d \<noteq> []"
    and "localStorage w (namespace @ ''lz-string'') = None"
    and "localStorage w ''lz-string'' = None"
    and "JSON_parse P d = Inl err"
  shows "loadStoredEvents P w = (Inl err, w)"
proof -
  have g1: "getFromLocalStorage P eventsStorageKey w = (Inr (Some d), w)"
    using assms(1,2)
    by (simp add: getFromLocalStorage_def on_local_def eventsStorageKey_def getFromStorage_present)
  have g2: "getFromLocalStorage P ''lz-string'' w = (Inr None, w)"
    using assms(3,4)
    by (simp add: getFromLocalStorage_def on_local_def getFromStorage_absent truthy_def)
  show ?thesis
    using assms(2,5) by (simp add: loadStoredEvents_def bindE_def g1 g2 throwE_def)
qed

theorem loadStoredEvents_throws_witness:
  "fst (loadStoredEvents demo_platform
         (demo_world\<lparr>localStorage := [namespace @ ''events'' \<mapsto> ''{'']\<rparr>)) = Inl SyntaxError"
proof -
  let ?w = "demo_world\<lparr>localStorage := [namespace @ ''events'' \<mapsto> ''{'']\<rparr>"
  have a: "localStorage ?w (namespace @ ''events'') = Some ''{''" by simp
  have b: "''{'' \<noteq> []" by simp
  have c: "localStorage ?w (namespace @ ''lz-string'') = None" by (simp add: namespace_def)
  have d: "localStorage ?w ''lz-string'' = None" by (simp add: namespace_def)
  have e: "JSON_parse demo_platform ''{'' = Inl SyntaxError"
    by (simp add: demo_platform_def demo_parse_def)
  show ?thesis
    using loadStoredEvents_throws_on_malformed [OF a b c d e] by simp
qed

subsection \<open>Writing the queue and reading it back\<close>

lemma ns_keys [simp]:
  "namespace @ k \<noteq> ''events''" "namespace @ k \<noteq> ''lz-string''"
  "''events'' \<noteq> namespace @ k" "''lz-string'' \<noteq> namespace @ k"
  "namespace \<noteq> []" "[] \<noteq> namespace"
  by (simp_all add: namespace_def)

lemma saveToLocalStorage_eq:
  "saveToLocalStorage P key v w =
     (if accepts P ((localStorage w)(key := None)) (namespace @ key) v
      then (Inr (), w\<lparr>localStorage := (localStorage w)(key := None, namespace @ key \<mapsto> v)\<rparr>)
      else (Inl QuotaExceededError, w\<lparr>localStorage := (localStorage w)(key := None)\<rparr>))"
  by (simp add: saveToLocalStorage_def on_local_def saveToStorage_def bindE_def removeItem_def setItem_def)

lemma save_accepted:
  "writes_accepted P evs (localStorage w) \<Longrightarrow>
   saveStoredEvents P evs w =
     (Inr (), w\<lparr>localStorage := (localStorage w)
        (''lz-string'' := None, namespace @ ''lz-string'' \<mapsto> ''true'',
         ''events'' := None, namespace @ ''events'' \<mapsto> queue_blob P evs)\<rparr>)"
  by (simp add: saveStoredEvents_def catchE_def bindE_def saveToLocalStorage_eq writes_accepted_def
      eventsStorageKey_def queue_blob_def)

lemma save_accepted_holds:
  "writes_accepted P evs (localStorage w) \<Longrightarrow>
   fst (saveStoredEvents P evs w) = Inr ()
   \<and> holds_queue P (localStorage (snd (saveStoredEvents P evs w))) evs"
  by (simp add: save_accepted holds_queue_def)

lemma save_refused:
  assumes "\<not> writes_accepted P evs (localStorage w)"
    and "fst (saveStoredEvents P evs w) = Inr ()"
  shows "localStorage (snd (saveStoredEvents P evs w)) (namespace @ ''events'') = Some []
    \<and> localStorage (snd (saveStoredEvents P evs w)) ''events'' = None"
  using assms
  by (auto simp add: saveStoredEvents_def catchE_def bindE_def saveToLocalStorage_eq
      writes_accepted_def eventsStorageKey_def queue_blob_def split: if_splits)

lemma save_holds:
  assumes "fst (saveStoredEvents P evs w) = Inr ()"
  shows "holds_queue P (localStorage (snd (saveStoredEvents P evs w))) evs
       \<or> holds_queue P (localStorage (snd (saveStoredEvents P evs w))) []"
  using assms
  by (auto simp add: saveStoredEvents_def catchE_def bindE_def saveToLocalStorage_eq
      eventsStorageKey_def queue_blob_def holds_queue_def split: if_splits)

lemma save_frame:
  "sent (snd (saveStoredEvents P evs w)) = sent w \<and> now (snd (saveStoredEvents P evs w)) = now w"
  by (auto simp add: saveStoredEvents_def catchE_def bindE_def saveToLocalStorage_eq
      split: if_splits)

lemma load_of_holds:
  assumes "holds_queue P (localStorage w) evs" and "roundtrips P evs"
  shows "loadStoredEvents P w = (Inr evs, w)"
  using assms unfolding holds_queue_def
proof (elim disjE conjE)
  assume b: "localStorage w (namespace @ ''events'') = Some (queue_blob P evs)"
    and f: "localStorage w (namespace @ ''lz-string'') = Some ''true''"
  have ne: "queue_blob P evs \<noteq> []" using assms(2) by (simp add: roundtrips_def)
  have g1: "getFromLocalStorage P eventsStorageKey w = (Inr (Some (queue_blob P evs)), w)"
    using b ne
    by (simp add: getFromLocalStorage_def on_local_def eventsStorageKey_def getFromStorage_present)
  have g2: "getFromLocalStorage P ''lz-string'' w = (Inr (Some ''true''), w)"
    using f by (simp add: getFromLocalStorage_def on_local_def getFromStorage_present)
  show ?thesis
    using assms(2) ne
    by (simp add: loadStoredEvents_def bindE_def g1 g2 roundtrips_def returnE_def
        split: sum.splits)
next
  assume e: "evs = []" and b: "localStorage w (namespace @ ''events'') = Some []"
    and l: "localStorage w ''events'' = None"
  have g1: "getFromLocalStorage P eventsStorageKey w = (Inr None, w)"
    using b l
    by (simp add: getFromLocalStorage_def on_local_def eventsStorageKey_def getFromStorage_absent truthy_def)
  show ?thesis using e by (simp add: loadStoredEvents_def bindE_def g1 returnE_def)
qed

lemma load_frame:
  "sent (snd (loadStoredEvents P w)) = sent w \<and> now (snd (loadStoredEvents P w)) = now w"
  by (auto simp add: loadStoredEvents_def bindE_def returnE_def throwE_def getFromLocalStorage_def
      on_local_def Let_def split: prod.splits sum.splits option.splits if_splits)

lemma enrich_localUuid [simp]: "localUuid (enrich P w e) = localUuid e"
  by (simp add: enrich_def)

lemma await_local [simp]: "localStorage (await C p w) = localStorage w"
  by (simp add: await_def)

subsection \<open>Sending an event\<close>

lemma ensureSession_keeps:
  "c_apiUrl (fst (snd (ensureSession P C s))) = c_apiUrl (fst s)
   \<and> c_participantCode (fst (snd (ensureSession P C s))) = c_participantCode (fst s)"
  by (auto simp add: ensureSession_def newSession_def newSession_start_def newSession_resume_def
      createSession_def sessionPromise_settled_def
      bindE_def returnE_def throwE_def on_world_def Let_def post_def
      split: option.splits prod.splits sum.splits maybe.splits)

lemma ensureSession_after_newSession:
  assumes "c_sessionUuid (fst s) = []" and "c_sessionPromise (fst s) = Some p"
    and "c_newSessionAwaits (fst s) = Some p" and "session_reply C p = Success v"
  shows "fst (ensureSession P C s) = Inr ()
    \<and> c_sessionUuid (fst (snd (ensureSession P C s))) = uuid v"
  using assms
  by (auto simp add: ensureSession_def newSession_resume_def Let_def returnE_def bindE_def
      on_world_def sessionPromise_settled_def split: prod.splits sum.splits)

lemma assignSession_result:
  assumes "fst (assignSession P C ev s) = Inr ev1"
  shows "ev1 = ev\<lparr>sessionUuid :=
           (if sessionUuid ev = [] then c_sessionUuid (fst (snd (assignSession P C ev s)))
            else sessionUuid ev)\<rparr>
    \<and> c_apiUrl (fst (snd (assignSession P C ev s))) = c_apiUrl (fst s)
    \<and> c_participantCode (fst (snd (assignSession P C ev s))) = c_participantCode (fst s)"
proof (cases "sessionUuid ev = []")
  case True
  obtain x s1 where e: "ensureSession P C s = (x, s1)" by (cases "ensureSession P C s")
  with True assms obtain y where x: "x = Inr y"
    by (cases x) (simp_all add: assignSession_def bindE_def)
  have a: "assignSession P C ev s = (Inr (ev\<lparr>sessionUuid := c_sessionUuid (fst s1)\<rparr>), s1)"
    using True by (simp add: assignSession_def bindE_def e x returnE_def)
  from ensureSession_keeps [of P C s] assms True show ?thesis by (simp add: a e)
next
  case False
  then have a: "assignSession P C ev s = (Inr ev, s)" by (simp add: assignSession_def returnE_def)
  with assms False show ?thesis by simp
qed

lemma storeEvent_accepted:
  assumes "fst (loadStoredEvents P (snd s)) = Inr queued"
    and "writes_accepted P
           (queued @ [\<lparr>apiUrl = c_apiUrl (fst s), event = ev, lastAttempt = now (snd s),
                       persisted = False, attempts = 1, participantCode = c_participantCode (fst s),
                       tryImmediately = True\<rparr>])
           (localStorage (snd (loadStoredEvents P (snd s))))"
  shows "fst (storeEvent P ev s) = Inr ()
      \<and> holds_queue P (localStorage (snd (snd (storeEvent P ev s))))
        (queued @ [\<lparr>apiUrl = c_apiUrl (fst s), event = ev, lastAttempt = now (snd s),
                    persisted = False, attempts = 1, participantCode = c_participantCode (fst s),
                    tryImmediately = True\<rparr>])
      \<and> fst (snd (storeEvent P ev s)) = fst s
      \<and> sent (snd (snd (storeEvent P ev s))) = sent (snd s)"
proof -
  obtain w1 where l: "loadStoredEvents P (snd s) = (Inr queued, w1)"
    using assms(1) by (cases "loadStoredEvents P (snd s)") simp
  have f: "now w1 = now (snd s)" "sent w1 = sent (snd s)"
    using load_frame [of P "snd s"] by (simp_all add: l)
  let ?env = "\<lparr>apiUrl = c_apiUrl (fst s), event = ev, lastAttempt = now (snd s),
                persisted = False, attempts = 1, participantCode = c_participantCode (fst s),
                tryImmediately = True\<rparr>"
  have acc: "writes_accepted P (queued @ [?env]) (localStorage w1)"
    using assms(2) by (simp add: l)
  note sv = save_accepted [OF acc]
  have se: "storeEvent P ev s =
      (case saveStoredEvents P (queued @ [?env]) w1 of (r, w) \<Rightarrow> (r, (fst s, w)))"
    by (simp add: storeEvent_def on_world_def bindE_def l Let_def f)
  show ?thesis unfolding se sv using f by (simp add: holds_queue_def)
qed

lemma postEvent_send_sent:
  assumes "fst (postEvent_send P C e r s) = Inr (Sent ev p)"
  shows "\<exists>s2.
      (if r then storeEvent P (stored_copy P C e s) else returnE ()) (storing_state P C e s) = (Inr (), s2)
    \<and> c_apiUrl (fst (storing_state P C e s)) = c_apiUrl (fst s)
    \<and> c_participantCode (fst (storing_state P C e s)) = c_participantCode (fst s)
    \<and> ev = (if url e = [] then (stored_copy P C e s)\<lparr>url := href P\<rparr> else stored_copy P C e s)
    \<and> p = length (sent (snd s2))
    \<and> snd (postEvent_send P C e r s) =
        (fst s2, (snd s2)\<lparr>sent := sent (snd s2) @ [Event_POST (c_apiUrl (fst s2)) ev (headers (fst s))]\<rparr>)"
proof -
  let ?ev0 = "enrich P (snd s) e"
  let ?h = "headers (fst s)"
  let ?st = "\<lambda>ev1. if r then storeEvent P ev1 else returnE ()"
  let ?k = "\<lambda>ev1. bindE (?st ev1) (\<lambda>_ s2.
                let ev2 = (if url ev1 = [] then ev1\<lparr>url := href P\<rparr> else ev1) in
                case post (Event_POST (c_apiUrl (fst s2)) ev2 ?h) (snd s2) of
                  (p, w3) \<Rightarrow> returnE (Sent ev2 p) (fst s2, w3))"
  let ?s1 = "storing_state P C e s"
  have tr: "truthy (map_of ?h ''X-Participant-Code'')"
    using assms by (auto simp add: postEvent_send_def Let_def returnE_def split: if_splits)
  have eq: "postEvent_send P C e r s = bindE (assignSession P C ?ev0) ?k s"
    using tr by (simp add: postEvent_send_def Let_def)
  obtain x1 where a: "assignSession P C ?ev0 s = (x1, ?s1)"
    by (cases "assignSession P C ?ev0 s") (simp add: storing_state_def)
  with assms eq obtain ev1 where x1: "x1 = Inr ev1"
    by (cases x1) (simp_all add: bindE_def)
  have a1: "fst (assignSession P C ?ev0 s) = Inr ev1" by (simp add: a x1)
  from assignSession_result [OF a1]
  have ev1: "ev1 = stored_copy P C e s"
    and k1: "c_apiUrl (fst ?s1) = c_apiUrl (fst s)" "c_participantCode (fst ?s1) = c_participantCode (fst s)"
    by (simp_all add: stored_copy_def storing_state_def enrich_def)
  obtain x2 s2 where st: "?st ev1 ?s1 = (x2, s2)" by (cases "?st ev1 ?s1")
  with assms eq a x1 have x2: "x2 = Inr ()"
    by (cases x2) (simp_all add: bindE_def)
  let ?ev2 = "if url ev1 = [] then ev1\<lparr>url := href P\<rparr> else ev1"
  have res: "postEvent_send P C e r s =
      (Inr (Sent ?ev2 (length (sent (snd s2)))),
       (fst s2, (snd s2)\<lparr>sent := sent (snd s2) @ [Event_POST (c_apiUrl (fst s2)) ?ev2 ?h]\<rparr>))"
    by (simp add: eq bindE_def a x1 st x2 Let_def post_def returnE_def)
  have evq: "ev = ?ev2" and pq: "p = length (sent (snd s2))"
    using assms unfolding res by simp_all
  have u: "url ev1 = url e" unfolding ev1 by (simp add: stored_copy_def enrich_def)
  have evq': "ev = (if url e = [] then (stored_copy P C e s)\<lparr>url := href P\<rparr> else stored_copy P C e s)"
    unfolding evq u unfolding ev1 by simp
  have st': "?st (stored_copy P C e s) ?s1 = (Inr (), s2)"
    using st unfolding x2 ev1 by simp
  have res': "snd (postEvent_send P C e r s) =
      (fst s2, (snd s2)\<lparr>sent := sent (snd s2) @ [Event_POST (c_apiUrl (fst s2)) ev ?h]\<rparr>)"
    unfolding res evq by simp
  from st' k1 evq' pq res' show ?thesis by blast
qed

lemma postEvent_send_localUuid:
  assumes "fst (postEvent_send P C e r s) = Inr (Sent ev p)"
  shows "localUuid ev = localUuid e"
  using postEvent_send_sent [OF assms] by (auto simp add: stored_copy_def enrich_def)

text \<open>
  C1, as stated, fails: on a full store the write of the queue is refused,
  \<open>saveStoredEvents\<close> catches the error and writes the empty placeholder, and the POST is
  issued all the same. The participant code is present, the event is sent, and the
  store read at that moment is empty.
\<close>

theorem postEvent_full_store_counterexample:
  "c_participantCode demo_api \<noteq> []
   \<and> fst (postEvent_send full_platform down_collector demo_event True (demo_api, full_world)) =
       Inr (Sent ((enrich full_platform full_world demo_event)\<lparr>url := href full_platform\<rparr>) 0)
   \<and> fst (loadStoredEvents full_platform
            (snd (snd (postEvent_send full_platform down_collector demo_event True (demo_api, full_world))))) =
       Inr []"
  by code_simp

text \<open>
  C1, amended. Take a call \<open>postEvent(e, true)\<close> that reaches its POST, the queue \<open>queued\<close>
  the store holds when the call stores the event, and the envelope for \<open>e\<close>:
  \<open>attempts = 1\<close>, \<open>tryImmediately = true\<close>, \<open>persisted = false\<close>, the coordinator's
  collector URL and participant code, wrapping the enriched event. If the store accepts
  the two writes of \<open>saveStoredEvents\<close> for \<open>queued\<close> followed by that envelope, then at the
  moment the POST is issued the store holds that queue with the envelope appended, and
  it is read back as such wherever the libraries round-trip on it. The event sent is
  the stored copy with its URL filled in, and the POST is the last request issued.
\<close>

theorem postEvent_stores_before_sending:
  assumes "fst (postEvent_send P C e True s) = Inr (Sent ev p)"
    and "fst (loadStoredEvents P (snd (storing_state P C e s))) = Inr queued"
    and "writes_accepted P (queued @ [envelope P C e s])
           (localStorage (snd (loadStoredEvents P (snd (storing_state P C e s)))))"
  shows "holds_queue P (localStorage (snd (snd (postEvent_send P C e True s))))
           (queued @ [envelope P C e s])
    \<and> (roundtrips P (queued @ [envelope P C e s])
        \<longrightarrow> fst (loadStoredEvents P (snd (snd (postEvent_send P C e True s)))) =
              Inr (queued @ [envelope P C e s]))
    \<and> ev = (if url e = [] then (stored_copy P C e s)\<lparr>url := href P\<rparr> else stored_copy P C e s)
    \<and> Suc p = length (sent (snd (snd (postEvent_send P C e True s))))
    \<and> sent (snd (snd (postEvent_send P C e True s))) ! p =
        Event_POST (c_apiUrl (fst s)) ev (headers (fst s))"
proof -
  let ?s1 = "storing_state P C e s"
  from postEvent_send_sent [OF assms(1)] obtain s2 where
    st: "storeEvent P (stored_copy P C e s) ?s1 = (Inr (), s2)"
    and k1: "c_apiUrl (fst ?s1) = c_apiUrl (fst s)" "c_participantCode (fst ?s1) = c_participantCode (fst s)"
    and evq: "ev = (if url e = [] then (stored_copy P C e s)\<lparr>url := href P\<rparr> else stored_copy P C e s)"
    and pq: "p = length (sent (snd s2))"
    and res: "snd (postEvent_send P C e True s) =
        (fst s2, (snd s2)\<lparr>sent := sent (snd s2) @ [Event_POST (c_apiUrl (fst s2)) ev (headers (fst s))]\<rparr>)"
    by auto
  have env: "envelope P C e s =
      \<lparr>apiUrl = c_apiUrl (fst ?s1), event = stored_copy P C e s, lastAttempt = now (snd ?s1),
       persisted = False, attempts = 1, participantCode = c_participantCode (fst ?s1),
       tryImmediately = True\<rparr>"
    by (simp add: envelope_def k1)
  from storeEvent_accepted [of P ?s1 queued "stored_copy P C e s", folded env, OF assms(2,3)] st
  have hq: "holds_queue P (localStorage (snd s2)) (queued @ [envelope P C e s])"
    and fr: "fst s2 = fst ?s1"
    by simp_all
  have hq': "holds_queue P (localStorage (snd (snd (postEvent_send P C e True s))))
      (queued @ [envelope P C e s])"
    using hq by (simp add: res)
  have rb: "roundtrips P (queued @ [envelope P C e s]) \<longrightarrow>
      fst (loadStoredEvents P (snd (snd (postEvent_send P C e True s)))) = Inr (queued @ [envelope P C e s])"
    using load_of_holds [OF hq'] by simp
  have lq: "Suc p = length (sent (snd (snd (postEvent_send P C e True s))))"
    by (simp add: res pq)
  have sq: "sent (snd (snd (postEvent_send P C e True s))) ! p = Event_POST (c_apiUrl (fst s)) ev (headers (fst s))"
    by (simp add: res pq fr k1)
  from hq' rb evq lq sq show ?thesis by blast
qed

theorem postEvent_stores_before_sending_witness:
  "fst (postEvent_send quota_platform down_collector demo_event True (demo_api, queued_world)) =
     Inr (Sent ((enrich quota_platform queued_world demo_event)\<lparr>url := href quota_platform\<rparr>) 0)
   \<and> fst (loadStoredEvents quota_platform
            (snd (storing_state quota_platform down_collector demo_event (demo_api, queued_world)))) =
       Inr [demo_entry\<lparr>tryImmediately := True\<rparr>, demo_entry\<lparr>event := demo_event\<lparr>localUuid := ''e2''\<rparr>\<rparr>]
   \<and> envelope quota_platform down_collector demo_event (demo_api, queued_world) = demo_envelope
   \<and> fst (loadStoredEvents quota_platform
            (snd (snd (postEvent_send quota_platform down_collector demo_event True (demo_api, queued_world))))) =
       Inr [demo_entry\<lparr>tryImmediately := True\<rparr>, demo_entry\<lparr>event := demo_event\<lparr>localUuid := ''e2''\<rparr>\<rparr>,
            demo_envelope]"
proof -
  let ?s = "(demo_api, queued_world)"
  let ?queued = "[demo_entry\<lparr>tryImmediately := True\<rparr>, demo_entry\<lparr>event := demo_event\<lparr>localUuid := ''e2''\<rparr>\<rparr>]"
  have issued:
    "fst (postEvent_send quota_platform down_collector demo_event True ?s) =
       Inr (Sent ((enrich quota_platform queued_world demo_event)\<lparr>url := href quota_platform\<rparr>) 0)"
    by code_simp
  have before:
    "fst (loadStoredEvents quota_platform
           (snd (storing_state quota_platform down_collector demo_event ?s))) = Inr ?queued"
    by code_simp
  have accepted:
    "writes_accepted quota_platform (?queued @ [envelope quota_platform down_collector demo_event ?s])
       (localStorage (snd (loadStoredEvents quota_platform
          (snd (storing_state quota_platform down_collector demo_event ?s)))))"
    by code_simp
  have readable:
    "roundtrips quota_platform (?queued @ [envelope quota_platform down_collector demo_event ?s])"
    by code_simp
  have env: "envelope quota_platform down_collector demo_event ?s = demo_envelope"
    by code_simp
  from postEvent_stores_before_sending [OF issued before accepted] readable
  have "fst (loadStoredEvents quota_platform
              (snd (snd (postEvent_send quota_platform down_collector demo_event True ?s)))) =
          Inr (?queued @ [envelope quota_platform down_collector demo_event ?s])"
    by blast
  with issued before env show ?thesis by simp
qed

subsection \<open>The reply to an event\<close>

lemma postEvent_unfold:
  assumes "fst (postEvent_send P C e r s) = Inr (Sent ev p)"
  shows "postEvent P C e r s =
     postEvent_receive P ev (event_reply C p)
       (fst (snd (postEvent_send P C e r s)), await C p (snd (snd (postEvent_send P C e r s))))"
  using assms
  by (cases "postEvent_send P C e r s") (simp add: postEvent_def bindE_def)

lemma receive_acknowledged:
  assumes "acknowledged res"
  shows "postEvent_receive P ev res s = bindE (on_world (clearStoredEvent P ev)) (\<lambda>_. returnE True) s"
  using assms by (cases res) (simp_all add: postEvent_receive_def acknowledged_def)

lemma receive_refused:
  assumes "\<not> acknowledged res"
  shows "postEvent_receive P ev res s = (Inr False, s)"
  using assms by (cases res) (simp_all add: postEvent_receive_def acknowledged_def returnE_def)

lemma clearStoredEvent_unreadable:
  assumes "fst (loadStoredEvents P w) = Inl err"
  shows "fst (clearStoredEvent P ev w) = Inl err"
  using assms
  by (cases "loadStoredEvents P w") (simp add: clearStoredEvent_def bindE_def)

lemma clearStoredEvent_purges:
  assumes "fst (loadStoredEvents P w) = Inr evs"
    and "writes_accepted P (filter (\<lambda>x. localUuid (event x) \<noteq> localUuid ev) evs)
           (localStorage (snd (loadStoredEvents P w)))"
  shows "fst (clearStoredEvent P ev w) = Inr ()
    \<and> holds_queue P (localStorage (snd (clearStoredEvent P ev w)))
          (filter (\<lambda>x. localUuid (event x) \<noteq> localUuid ev) evs)"
proof -
  obtain w1 where l: "loadStoredEvents P w = (Inr evs, w1)"
    using assms(1) by (cases "loadStoredEvents P w") simp
  from assms(2) have "writes_accepted P (filter (\<lambda>x. localUuid (event x) \<noteq> localUuid ev) evs) (localStorage w1)"
    by (simp add: l)
  from save_accepted_holds [OF this] show ?thesis
    by (simp add: clearStoredEvent_def bindE_def l)
qed

text \<open>
  Where the queue can be read and the store accepts the write, a delivered event is
  purged from the queue, every copy of it, and the call returns true; any other reply
  returns false and leaves the store as it was when the POST was issued.
\<close>

lemma postEvent_reply_purges:
  assumes "fst (postEvent_send P C e r s) = Inr (Sent ev p)"
    and "fst (loadStoredEvents P (await C p (snd (snd (postEvent_send P C e r s))))) = Inr evs"
  shows "(acknowledged (event_reply C p)
          \<and> writes_accepted P (filter (\<lambda>x. localUuid (event x) \<noteq> localUuid e) evs)
              (localStorage (snd (loadStoredEvents P (await C p (snd (snd (postEvent_send P C e r s)))))))
        \<longrightarrow> fst (postEvent P C e r s) = Inr True
          \<and> holds_queue P (localStorage (snd (snd (postEvent P C e r s))))
              (filter (\<lambda>x. localUuid (event x) \<noteq> localUuid e) evs))
    \<and> (\<not> acknowledged (event_reply C p)
        \<longrightarrow> fst (postEvent P C e r s) = Inr False
          \<and> localStorage (snd (snd (postEvent P C e r s))) =
              localStorage (snd (snd (postEvent_send P C e r s))))"
proof -
  let ?s2 = "(fst (snd (postEvent_send P C e r s)), await C p (snd (snd (postEvent_send P C e r s))))"
  let ?kept = "filter (\<lambda>x. localUuid (event x) \<noteq> localUuid e) evs"
  have u: "localUuid ev = localUuid e" by (rule postEvent_send_localUuid [OF assms(1)])
  have p: "postEvent P C e r s = postEvent_receive P ev (event_reply C p) ?s2"
    by (rule postEvent_unfold [OF assms(1)])
  have ack: "fst (postEvent P C e r s) = Inr True
      \<and> holds_queue P (localStorage (snd (snd (postEvent P C e r s)))) ?kept"
    if a: "acknowledged (event_reply C p)"
      and b: "writes_accepted P ?kept
                (localStorage (snd (loadStoredEvents P (await C p (snd (snd (postEvent_send P C e r s)))))))"
  proof -
    from clearStoredEvent_purges [of P "snd ?s2" evs ev] assms(2) b
    have c: "fst (clearStoredEvent P ev (snd ?s2)) = Inr ()"
      "holds_queue P (localStorage (snd (clearStoredEvent P ev (snd ?s2)))) ?kept"
      by (simp_all add: u)
    then show ?thesis
      unfolding p receive_acknowledged [OF a]
      by (cases "clearStoredEvent P ev (snd ?s2)") (simp add: bindE_def on_world_def returnE_def)
  qed
  have nack: "fst (postEvent P C e r s) = Inr False
      \<and> localStorage (snd (snd (postEvent P C e r s))) = localStorage (snd (snd (postEvent_send P C e r s)))"
    if "\<not> acknowledged (event_reply C p)"
    unfolding p receive_refused [OF that] by simp
  from ack nack show ?thesis by blast
qed

text \<open>
  C2 says that a call whose POST is answered by a success, or by the failure code
  \<open>EVENT_ALREADY_EXISTS_OK\<close>, returns true. The code does not when the queue cannot be
  read at that moment: \<open>clearStoredEvent\<close> calls \<open>loadStoredEvents\<close>, whose error (see C3)
  propagates, and \<open>postEvent\<close> throws although the event was delivered.
\<close>

theorem postEvent_throws_after_delivery:
  assumes "fst (postEvent_send P C e r s) = Inr (Sent ev p)"
    and "acknowledged (event_reply C p)"
    and "fst (loadStoredEvents P (await C p (snd (snd (postEvent_send P C e r s))))) = Inl err"
  shows "fst (postEvent P C e r s) = Inl err"
proof -
  let ?s2 = "(fst (snd (postEvent_send P C e r s)), await C p (snd (snd (postEvent_send P C e r s))))"
  have p: "postEvent P C e r s = postEvent_receive P ev (event_reply C p) ?s2"
    by (rule postEvent_unfold [OF assms(1)])
  from clearStoredEvent_unreadable [of P "snd ?s2" err ev] assms(3)
  have "fst (clearStoredEvent P ev (snd ?s2)) = Inl err" by simp
  then show ?thesis
    unfolding p receive_acknowledged [OF assms(2)]
    by (cases "clearStoredEvent P ev (snd ?s2)") (simp add: bindE_def on_world_def)
qed

theorem postEvent_throws_after_delivery_witness:
  "fst (postEvent_send demo_platform up_collector demo_event False (demo_api, malformed_world)) =
     Inr (Sent ((enrich demo_platform malformed_world demo_event)\<lparr>url := href demo_platform\<rparr>) 0)
   \<and> event_reply up_collector 0 = Success True
   \<and> fst (postEvent demo_platform up_collector demo_event False (demo_api, malformed_world)) =
       Inl SyntaxError"
proof -
  let ?s = "(demo_api, malformed_world)"
  have issued:
    "fst (postEvent_send demo_platform up_collector demo_event False ?s) =
       Inr (Sent ((enrich demo_platform malformed_world demo_event)\<lparr>url := href demo_platform\<rparr>) 0)"
    by code_simp
  have reply: "event_reply up_collector 0 = Success True" by code_simp
  have ack: "acknowledged (event_reply up_collector 0)" by code_simp
  have unreadable:
    "fst (loadStoredEvents demo_platform
           (await up_collector 0 (snd (snd (postEvent_send demo_platform up_collector demo_event False ?s))))) =
       Inl SyntaxError"
    by code_simp
  from postEvent_throws_after_delivery [OF issued ack unreadable] issued reply
  show ?thesis by simp
qed

subsection \<open>The retry sweep\<close>

text \<open>
  C7. After a sweep that has completed, the store holds a queue with no entry marked
  \<open>persisted\<close>: the entries that are left after the filter, or nothing when the write was
  refused, and that queue is what \<open>loadStoredEvents\<close> returns wherever the libraries
  round-trip on it.
\<close>

theorem sweep_leaves_no_persisted:
  assumes "fst (retryToPostStoredEvents P C w) = Inr ()"
  shows "\<exists>remaining.
           (\<forall>e \<in> set remaining. \<not> persisted e)
           \<and> holds_queue P (localStorage (snd (retryToPostStoredEvents P C w))) remaining
           \<and> (roundtrips P remaining \<longrightarrow>
                fst (loadStoredEvents P (snd (retryToPostStoredEvents P C w))) = Inr remaining)"
proof -
  obtain swept w2 where
    run: "retryToPostStoredEvents P C w = saveStoredEvents P (filter (\<lambda>e. \<not> persisted e) swept) w2"
    using assms
    by (auto simp add: retryToPostStoredEvents_def bindE_def split: prod.splits sum.splits)
  let ?kept = "filter (\<lambda>e. \<not> persisted e) swept"
  let ?w' = "snd (saveStoredEvents P ?kept w2)"
  from assms run have ok: "fst (saveStoredEvents P ?kept w2) = Inr ()" by simp
  from save_holds [OF ok] show ?thesis
  proof
    assume h: "holds_queue P (localStorage ?w') ?kept"
    have "\<forall>e \<in> set ?kept. \<not> persisted e" by simp
    moreover have "roundtrips P ?kept \<longrightarrow> fst (loadStoredEvents P ?w') = Inr ?kept"
      using load_of_holds [OF h] by simp
    ultimately show ?thesis using h unfolding run by blast
  next
    assume h: "holds_queue P (localStorage ?w') []"
    have "roundtrips P [] \<longrightarrow> fst (loadStoredEvents P ?w') = Inr []"
      using load_of_holds [OF h] by simp
    then show ?thesis using h unfolding run by (intro exI [of _ "[]"]) simp
  qed
qed

theorem sweep_leaves_no_persisted_witness:
  "fst (retryToPostStoredEvents demo_platform up_collector queued_world) = Inr ()
   \<and> fst (loadStoredEvents demo_platform (snd (retryToPostStoredEvents demo_platform up_collector queued_world))) =
       Inr [demo_entry\<lparr>event := demo_event\<lparr>localUuid := ''e2''\<rparr>\<rparr>]
   \<and> (\<exists>remaining.
         holds_queue demo_platform
           (localStorage (snd (retryToPostStoredEvents demo_platform up_collector queued_world))) remaining)"
proof -
  have finished: "fst (retryToPostStoredEvents demo_platform up_collector queued_world) = Inr ()"
    by code_simp
  have left:
    "fst (loadStoredEvents demo_platform (snd (retryToPostStoredEvents demo_platform up_collector queued_world))) =
       Inr [demo_entry\<lparr>event := demo_event\<lparr>localUuid := ''e2''\<rparr>\<rparr>]"
    by code_simp
  from sweep_leaves_no_persisted [OF finished] finished left show ?thesis by blast
qed







text \<open>
  C4 says that a retry uses the entry's own recorded participant code. The code does
  not: \<open>createApi(storedEvent.apiUrl, storedEvent.participantCode)\<close> reads the participant
  code of \<open>localStorage\<close> first and takes the recorded one only when there is none, so
  the headers of the retry carry the current identity.
\<close>

theorem createApi_prefers_current_identity:
  assumes "localStorage w (namespace @ ''participantCode'') = Some current" and "current \<noteq> []"
    and "fst (createApi P u (Some recorded) w) = Inr api"
  shows "map_of (getHeaders api) ''X-Participant-Code'' = Some current"
proof -
  have g: "getFromLocalStorage P ''participantCode'' w = (Inr (Some current), w)"
    using assms(1,2) by (simp add: getFromLocalStorage_def on_local_def getFromStorage_present)
  show ?thesis
    using assms(3)
    by (auto simp add: createApi_def bindE_def g returnE_def getHeaders_def headers_def
        split: prod.splits sum.splits)
qed

theorem sweep_uses_current_identity_witness:
  "map participantCode (projr (fst (loadStoredEvents demo_platform relogged_world))) = [''P1'']
   \<and> map request_code (sent (snd (retryToPostStoredEvents demo_platform up_collector relogged_world))) =
       [Some ''P2'']
   \<and> map_of (getHeaders (projr (fst (createApi demo_platform ''https://collector'' (Some ''P1'') relogged_world))))
       ''X-Participant-Code'' = Some ''P2''"
proof -
  have a: "localStorage relogged_world (namespace @ ''participantCode'') = Some ''P2''"
    by code_simp
  have b: "''P2'' \<noteq> []" by simp
  have c: "fst (createApi demo_platform ''https://collector'' (Some ''P1'') relogged_world) =
      Inr (projr (fst (createApi demo_platform ''https://collector'' (Some ''P1'') relogged_world)))"
    by code_simp
  have d: "map participantCode (projr (fst (loadStoredEvents demo_platform relogged_world))) = [''P1'']"
    by code_simp
  have e: "map request_code (sent (snd (retryToPostStoredEvents demo_platform up_collector relogged_world))) =
       [Some ''P2'']"
    by code_simp
  from createApi_prefers_current_identity [OF a b c] d e show ?thesis by blast
qed

text \<open>
  C6 says that an event gets its session identifier once, at the first attempt, and
  keeps it through every retry. The code does not when \<open>ensureSession\<close> waits on a
  creation request in flight that fails: it returns all the same, the event is stored
  and posted with the empty session identifier, and the retry creates a session again
  and posts the event under it, while the stored copy keeps the empty identifier.
\<close>

theorem session_assigned_empty_then_again:
  "fst (postEvent demo_platform recovering_collector fresh_event True (waiting_api, waiting_world)) = Inr False
   \<and> map (\<lambda>x. sessionUuid (event x))
       (projr (fst (loadStoredEvents demo_platform
          (snd (snd (postEvent demo_platform recovering_collector fresh_event True (waiting_api, waiting_world)))))))
       = [[]]
   \<and> map request_session
       (sent (snd (retryToPostStoredEvents demo_platform recovering_collector
          (snd (snd (postEvent demo_platform recovering_collector fresh_event True (waiting_api, waiting_world)))))))
       = [None, Some [], None, Some ''s2'']
   \<and> map (\<lambda>x. sessionUuid (event x))
       (projr (fst (loadStoredEvents demo_platform
          (snd (retryToPostStoredEvents demo_platform recovering_collector
             (snd (snd (postEvent demo_platform recovering_collector fresh_event True (waiting_api, waiting_world)))))))))
       = [[]]"
  by code_simp

end
